theory Spec2Isabelle
  imports Complex_Main
begin

section \<open>The CHSH notebook: a two-qubit model of the simulation and of the aggregation\<close>

text \<open>
  The notebook prepares the Bell pair on a two-wire device, measures the expectation value
  of four products of observables and combines them with the signs (+,+,+,-).
  Python floats are read as real numbers, complex amplitudes as \<^typ>\<open>complex\<close>; the
  two \<^verbatim>\<open>print\<close> calls of \<^verbatim>\<open>compute_chsh\<close> have no effect on the returned
  value and are left out.

  The functions of the notebook (\<open>bell_pair\<close>, \<open>measure_obs\<close>, the three choices of
  observables, \<open>compute_chsh\<close> and the hardware section) follow the source line by line.
  The quantum library they call is not part of the repository: its device, gates,
  observables and expectation value are modelled in the first three subsections, and the
  model is checked below against what the notebook itself documents (the state that
  \<open>bell_pair\<close> prepares, and the four correlators of the unrotated run).
\<close>

subsection \<open>States of the two-wire device\<close>

text \<open>
  Modelled from the spec: the state of the simulation backend, which the spec calls a
  fixed two-qubit quantum state, opaque to the notebook. A state holds the four
  amplitudes of the basis vectors 00, 01, 10, 11 in this order; the first bit is wire 0
  (Alice), the second bit is wire 1 (Bob).
\<close>

type_synonym state = "complex \<times> complex \<times> complex \<times> complex"

text \<open>The device starts every circuit in the basis state 00.\<close>

definition initial_state :: state where
  "initial_state = (1, 0, 0, 0)"

definition null_vector :: state where
  "null_vector = (0, 0, 0, 0)"

fun state_add :: "state \<Rightarrow> state \<Rightarrow> state" where
  "state_add (a, b, c, d) (a', b', c', d') = (a + a', b + b', c + c', d + d')"

fun state_scale :: "complex \<Rightarrow> state \<Rightarrow> state" where
  "state_scale k (a, b, c, d) = (k * a, k * b, k * c, k * d)"

fun braket :: "state \<Rightarrow> state \<Rightarrow> complex" where
  "braket (a, b, c, d) (a', b', c', d') = cnj a * a' + cnj b * b' + cnj c * c' + cnj d * d'"

subsection \<open>Gates of the circuit\<close>

text \<open>
  Modelled from the spec: the gate \<^verbatim>\<open>qml.Hadamard(wires = w)\<close> of the library, by its
  textbook matrix on wire \<open>w\<close>. The device has the wires 0 and 1 only; on any other wire
  the function leaves the state as it is, and the program never calls it there.
\<close>

fun Hadamard :: "nat \<Rightarrow> state \<Rightarrow> state" where
  "Hadamard w (a, b, c, d) =
     (if w = 0 then ((a + c) / complex_of_real (sqrt 2), (b + d) / complex_of_real (sqrt 2),
                     (a - c) / complex_of_real (sqrt 2), (b - d) / complex_of_real (sqrt 2))
      else if w = 1 then ((a + b) / complex_of_real (sqrt 2), (a - b) / complex_of_real (sqrt 2),
                          (c + d) / complex_of_real (sqrt 2), (c - d) / complex_of_real (sqrt 2))
      else (a, b, c, d))"

text \<open>
  Modelled from the spec: the gate \<^verbatim>\<open>qml.CNOT(wires = [ctl, tgt])\<close> of the library: it
  flips the target bit of the basis vectors whose control bit is 1.
\<close>

fun CNOT :: "nat \<Rightarrow> nat \<Rightarrow> state \<Rightarrow> state" where
  "CNOT ctl tgt (a, b, c, d) =
     (if ctl = 0 \<and> tgt = 1 then (a, b, d, c)
      else if ctl = 1 \<and> tgt = 0 then (a, d, c, b)
      else (a, b, c, d))"

text \<open>The circuit of \<^verbatim>\<open>bell_pair\<close>: a Hadamard gate on wire 0, then a CNOT from 0 to 1.\<close>

definition bell_pair :: "state \<Rightarrow> state" where
  "bell_pair s = CNOT 0 1 (Hadamard 0 s)"

subsection \<open>Observables\<close>

text \<open>
  Modelled from the spec: the operators of the library, which the spec describes as plain
  linear combinations of two fixed single-qubit operators. The notebook builds them from
  \<^verbatim>\<open>qml.PauliZ(wires = w)\<close> and \<^verbatim>\<open>qml.PauliX(wires = w)\<close> with the operator arithmetic
  of the library: \<^verbatim>\<open>a @ b\<close> is \<open>Prod a b\<close>, \<^verbatim>\<open>a + b\<close> is \<open>Sum a b\<close>,
  \<^verbatim>\<open>a - b\<close> is \<open>obs_minus a b\<close> and \<^verbatim>\<open>a / k\<close> is \<open>obs_div a k\<close>.
\<close>

datatype obs =
    PauliZ nat
  | PauliX nat
  | Prod obs obs
  | Sum obs obs
  | SProd real obs

definition obs_minus :: "obs \<Rightarrow> obs \<Rightarrow> obs" where
  "obs_minus a b = Sum a (SProd (- 1) b)"

definition obs_div :: "obs \<Rightarrow> real \<Rightarrow> obs" where
  "obs_div a k = SProd (1 / k) a"

text \<open>The wires an operator acts on.\<close>

fun wires :: "obs \<Rightarrow> nat list" where
  "wires (PauliZ w) = [w]"
| "wires (PauliX w) = [w]"
| "wires (Prod a b) = wires a @ wires b"
| "wires (Sum a b) = wires a @ wires b"
| "wires (SProd k a) = wires a"

text \<open>
  Modelled from the spec: the action of the two Pauli operators on a state, by their
  textbook matrices on wire \<open>w\<close>: \<open>Z\<close> negates the amplitudes whose bit \<open>w\<close> is 1,
  \<open>X\<close> exchanges the amplitudes that differ in bit \<open>w\<close>.
\<close>

fun pauli_z :: "nat \<Rightarrow> state \<Rightarrow> state" where
  "pauli_z w (a, b, c, d) =
     (if w = 0 then (a, b, - c, - d) else if w = 1 then (a, - b, c, - d) else (a, b, c, d))"

fun pauli_x :: "nat \<Rightarrow> state \<Rightarrow> state" where
  "pauli_x w (a, b, c, d) =
     (if w = 0 then (c, d, a, b) else if w = 1 then (b, a, d, c) else (a, b, c, d))"

text \<open>
  Modelled from the spec: the action of a composed operator: a product applies its right
  factor first, a sum adds the two images, a scalar product scales the image.
\<close>

fun apply_obs :: "obs \<Rightarrow> state \<Rightarrow> state" where
  "apply_obs (PauliZ w) s = pauli_z w s"
| "apply_obs (PauliX w) s = pauli_x w s"
| "apply_obs (Prod a b) s = apply_obs a (apply_obs b s)"
| "apply_obs (Sum a b) s = state_add (apply_obs a s) (apply_obs b s)"
| "apply_obs (SProd k a) s = state_scale (complex_of_real k) (apply_obs a s)"

text \<open>
  Modelled from the spec: \<^verbatim>\<open>qml.expval(obs)\<close> on a device without shots, the exact
  expectation value of the spec: the real part of the inner product of the state with its
  image. Every product that the notebook measures is Hermitian, so that the inner product
  is real.
\<close>

definition expval :: "obs \<Rightarrow> state \<Rightarrow> real" where
  "expval ob s = Re (braket s (apply_obs ob s))"

subsection \<open>The functions of the notebook\<close>

text \<open>
  \<^verbatim>\<open>dev = qml.device("default.qubit", wires = 2)\<close>: the device of the simulation has two
  wires, and running a circuit that names another wire raises an error of the library.
\<close>

datatype error = WireError

definition dev_wires :: nat where
  "dev_wires = 2"

text \<open>
  \<^verbatim>\<open>measure_obs\<close> of the simulation section: the circuit runs \<open>bell_pair\<close> from the
  initial state of the device and returns the expectation value of the observable.
\<close>

definition measure_obs :: "obs \<Rightarrow> error + real" where
  "measure_obs ob =
     (if list_all (\<lambda>w. w < dev_wires) (wires ob)
      then Inr (expval ob (bell_pair initial_state))
      else Inl WireError)"

definition alice_observables :: "obs \<times> obs" where
  "alice_observables = (PauliZ 0, PauliX 0)"

definition bob_observables :: "obs \<times> obs" where
  "bob_observables = (PauliZ 1, PauliX 1)"

definition bob_observables_optimal :: "obs \<times> obs" where
  "bob_observables_optimal =
     (obs_div (Sum (PauliZ 1) (PauliX 1)) (sqrt 2),
      obs_div (obs_minus (PauliZ 1) (PauliX 1)) (sqrt 2))"

text \<open>
  The list comprehension \<^verbatim>\<open>[measure_obs(obs) for obs in observables]\<close> stops at the
  first measurement that raises.
\<close>

fun measure_all :: "(obs \<Rightarrow> error + real) \<Rightarrow> obs list \<Rightarrow> error + real list" where
  "measure_all m [] = Inr []"
| "measure_all m (ob # obs) =
     (case m ob of
        Inl e \<Rightarrow> Inl e
      | Inr v \<Rightarrow> (case measure_all m obs of Inl e \<Rightarrow> Inl e | Inr vs \<Rightarrow> Inr (v # vs)))"

text \<open>
  \<^verbatim>\<open>compute_chsh\<close> reads the global \<^verbatim>\<open>measure_obs\<close>, which the notebook binds twice
  (to the simulator, later to the hardware device); it is the first argument here.
\<close>

definition chsh_observables :: "obs \<Rightarrow> obs \<Rightarrow> obs \<Rightarrow> obs \<Rightarrow> obs list" where
  "chsh_observables A0 A1 B0 B1 = [Prod A0 B0, Prod A0 B1, Prod A1 B0, Prod A1 B1]"

definition compute_chsh :: "(obs \<Rightarrow> error + real) \<Rightarrow> obs \<Rightarrow> obs \<Rightarrow> obs \<Rightarrow> obs \<Rightarrow> error + real" where
  "compute_chsh m A0 A1 B0 B1 =
     (let observables = chsh_observables A0 A1 B0 B1 in
      case measure_all m observables of
        Inl e \<Rightarrow> Inl e
      | Inr expvals \<Rightarrow> Inr (sum_list (take 3 expvals) - expvals ! 3))"

subsection \<open>The hardware section\<close>

text \<open>
  The hardware section measures Alice's observables against the bare \<open>Z\<close> and \<open>X\<close> of
  wire 1, one product at a time, and rebuilds the four correlators of the rotated basis
  from the raw values before it combines them. The remote device is the measuring
  function \<open>m\<close>; \<open>A0\<close> and \<open>A1\<close> are the globals bound from \<open>alice_observables\<close>.
\<close>

definition hardware_observables :: "obs \<Rightarrow> obs \<Rightarrow> obs list" where
  "hardware_observables A0 A1 =
     [Prod A0 (PauliZ 1), Prod A0 (PauliX 1), Prod A1 (PauliZ 1), Prod A1 (PauliX 1)]"

definition CHSH_expval :: "real list \<Rightarrow> real" where
  "CHSH_expval expvals =
     (let A0B0 = (expvals ! 0 + expvals ! 1) / sqrt 2;
          A0B1 = (expvals ! 0 - expvals ! 1) / sqrt 2;
          A1B0 = (expvals ! 2 + expvals ! 3) / sqrt 2;
          A1B1 = (expvals ! 2 - expvals ! 3) / sqrt 2
      in A0B0 + A0B1 + A1B0 - A1B1)"

definition hardware_chsh :: "(obs \<Rightarrow> error + real) \<Rightarrow> obs \<Rightarrow> obs \<Rightarrow> error + real" where
  "hardware_chsh m A0 A1 =
     (case measure_all m (hardware_observables A0 A1) of
        Inl e \<Rightarrow> Inl e
      | Inr expvals \<Rightarrow> Inr (CHSH_expval expvals))"

subsection \<open>Auxiliary notions for the statements\<close>

definition in_unit_interval :: "error + real \<Rightarrow> bool" where
  "in_unit_interval r = (case r of Inl e \<Rightarrow> False | Inr v \<Rightarrow> - 1 \<le> v \<and> v \<le> 1)"

text \<open>
  A table of four correlators that are each in the unit interval but belong to no quantum
  state: it answers \<open>- 1\<close> on the product of the two \<open>X\<close> observables and \<open>1\<close> on
  every other observable.
\<close>

definition extremal_table :: "obs \<Rightarrow> error + real" where
  "extremal_table ob = (if ob = Prod (PauliX 0) (PauliX 1) then Inr (- 1) else Inr 1)"

text \<open>
  An observable of wire \<open>w\<close> in the plane of \<open>Z\<close> and \<open>X\<close>, the family in which the
  notebook looks for Bob's measurement bases: \<^verbatim>\<open>a * qml.PauliZ(w) + b * qml.PauliX(w)\<close>.
  It is normalised when \<open>a\<^sup>2 + b\<^sup>2 = 1\<close>.
\<close>

definition zx_observable :: "nat \<Rightarrow> real \<Rightarrow> real \<Rightarrow> obs" where
  "zx_observable w a b = Sum (SProd a (PauliZ w)) (SProd b (PauliX w))"

section \<open>Basic facts\<close>

subsection \<open>The state the circuit prepares\<close>

text \<open>
  The docstring of \<^verbatim>\<open>bell_pair\<close> promises the state \<^verbatim>\<open>(|00> + |11>) / sqrt 2\<close>.
\<close>

lemma bell_state:
  "bell_pair initial_state = (1 / complex_of_real (sqrt 2), 0, 0, 1 / complex_of_real (sqrt 2))"
  by (simp add: bell_pair_def initial_state_def)

lemma sqrt2_sq_complex: "complex_of_real (sqrt 2) * complex_of_real (sqrt 2) = 2"
  by (simp flip: of_real_mult)

lemmas sim_defs = measure_obs_def dev_wires_def expval_def bell_state

lemmas opt_defs = bob_observables_optimal_def obs_div_def obs_minus_def

subsection \<open>The eight correlators of the exact simulation\<close>

text \<open>
  The first four are the values the notebook states after its first run: 1 for the
  products \<open>ZZ\<close> and \<open>XX\<close>, 0 for \<open>ZX\<close> and \<open>XZ\<close>.
\<close>

lemma measure_ZZ: "measure_obs (Prod (PauliZ 0) (PauliZ 1)) = Inr 1"
  by (simp add: sim_defs)

lemma measure_ZX: "measure_obs (Prod (PauliZ 0) (PauliX 1)) = Inr 0"
  by (simp add: sim_defs)

lemma measure_XZ: "measure_obs (Prod (PauliX 0) (PauliZ 1)) = Inr 0"
  by (simp add: sim_defs)

lemma measure_XX: "measure_obs (Prod (PauliX 0) (PauliX 1)) = Inr 1"
  by (simp add: sim_defs)

lemma measure_ZB0:
  "measure_obs (Prod (PauliZ 0) (fst bob_observables_optimal)) = Inr (1 / sqrt 2)"
  by (simp add: sim_defs opt_defs)

lemma measure_ZB1:
  "measure_obs (Prod (PauliZ 0) (snd bob_observables_optimal)) = Inr (1 / sqrt 2)"
  by (simp add: sim_defs opt_defs)

lemma measure_XB0:
  "measure_obs (Prod (PauliX 0) (fst bob_observables_optimal)) = Inr (1 / sqrt 2)"
  by (simp add: sim_defs opt_defs)

lemma measure_XB1:
  "measure_obs (Prod (PauliX 0) (snd bob_observables_optimal)) = Inr (- (1 / sqrt 2))"
  by (simp add: sim_defs opt_defs)

lemma inv_sqrt2_le_1: "1 / sqrt 2 \<le> 1"
  by simp

subsection \<open>The two aggregations on given correlators\<close>

lemma compute_chsh_values:
  assumes "m (Prod A0 B0) = Inr e1" "m (Prod A0 B1) = Inr e2"
    and "m (Prod A1 B0) = Inr e3" "m (Prod A1 B1) = Inr e4"
  shows "compute_chsh m A0 A1 B0 B1 = Inr (e1 + e2 + e3 - e4)"
  using assms by (simp add: compute_chsh_def chsh_observables_def)

lemma CHSH_expval_four:
  "CHSH_expval [z0, x0, z1, x1] =
     (z0 + x0) / sqrt 2 + (z0 - x0) / sqrt 2 + (z1 + x1) / sqrt 2 - (z1 - x1) / sqrt 2"
  by (simp add: CHSH_expval_def)

lemma CHSH_expval_simplified: "CHSH_expval [z0, x0, z1, x1] = sqrt 2 * (z0 + x1)"
  by (simp add: CHSH_expval_four field_simps)

lemma hardware_chsh_values:
  assumes "m (Prod A0 (PauliZ 1)) = Inr z0" "m (Prod A0 (PauliX 1)) = Inr x0"
    and "m (Prod A1 (PauliZ 1)) = Inr z1" "m (Prod A1 (PauliX 1)) = Inr x1"
  shows "hardware_chsh m A0 A1 = Inr (CHSH_expval [z0, x0, z1, x1])"
  using assms by (simp add: hardware_chsh_def hardware_observables_def)

lemma simulated_unrotated:
  "compute_chsh measure_obs (PauliZ 0) (PauliX 0) (PauliZ 1) (PauliX 1) = Inr 0"
  using compute_chsh_values [OF measure_ZZ measure_ZX measure_XZ measure_XX] by simp

lemma simulated_optimal:
  "compute_chsh measure_obs (PauliZ 0) (PauliX 0)
     (fst bob_observables_optimal) (snd bob_observables_optimal) = Inr (2 * sqrt 2)"
proof -
  have "1 / sqrt 2 + 1 / sqrt 2 + 1 / sqrt 2 - - (1 / sqrt 2) = 2 * sqrt 2"
    by (simp add: field_simps)
  with compute_chsh_values [OF measure_ZB0 measure_ZB1 measure_XB0 measure_XB1]
  show ?thesis by simp
qed

subsection \<open>Bounds on the square root of two\<close>

lemma two_sqrt2_lower: "2.82842705 \<le> 2 * sqrt 2"
proof -
  have "(2.82842705 / 2)\<^sup>2 \<le> (2::real)"
    by (simp add: power2_eq_square)
  then have "2.82842705 / 2 \<le> sqrt 2"
    by (rule real_le_rsqrt)
  then show ?thesis by simp
qed

lemma two_sqrt2_upper: "2 * sqrt 2 \<le> 2.82842715"
proof -
  have "(2::real) \<le> (2.82842715 / 2)\<^sup>2"
    by (simp add: power2_eq_square)
  then have "sqrt 2 \<le> 2.82842715 / 2"
    by (intro real_le_lsqrt) simp_all
  then show ?thesis by simp
qed

lemma two_sqrt2_approx: "\<bar>2 * sqrt 2 - 2.8284271\<bar> \<le> 5 / 10 ^ 8"
proof -
  have "2.8284271 - 5 / 10 ^ 8 \<le> 2 * sqrt 2"
    using two_sqrt2_lower by simp
  moreover have "2 * sqrt 2 \<le> 2.8284271 + 5 / 10 ^ 8"
    using two_sqrt2_upper by simp
  ultimately show ?thesis
    by (simp only: abs_le_iff) linarith
qed

subsection \<open>Correlators of observables in the plane of Z and X\<close>

lemma measure_zx_plane: "measure_obs (Prod (zx_observable 0 a b) (zx_observable 1 c d)) = Inr (a * c + b * d)"
  by (simp add: sim_defs zx_observable_def field_simps)

lemma cauchy_schwarz_plane:
  fixes a b x y :: real
  assumes "a\<^sup>2 + b\<^sup>2 = 1"
  shows "(a * x + b * y)\<^sup>2 \<le> x\<^sup>2 + y\<^sup>2"
proof -
  have "(a\<^sup>2 + b\<^sup>2) * (x\<^sup>2 + y\<^sup>2) - (a * x + b * y)\<^sup>2 = (a * y - b * x)\<^sup>2"
    by (simp add: power2_eq_square algebra_simps)
  moreover have "0 \<le> (a * y - b * x)\<^sup>2"
    by simp
  moreover have "(a\<^sup>2 + b\<^sup>2) * (x\<^sup>2 + y\<^sup>2) = x\<^sup>2 + y\<^sup>2"
    by (simp only: assms mult_1)
  ultimately show ?thesis
    by linarith
qed

lemma square_of_sum_le:
  fixes u v :: real
  shows "(u + v)\<^sup>2 \<le> 2 * (u\<^sup>2 + v\<^sup>2)"
proof -
  have "2 * (u\<^sup>2 + v\<^sup>2) - (u + v)\<^sup>2 = (u - v)\<^sup>2"
    by (simp add: power2_eq_square algebra_simps)
  moreover have "0 \<le> (u - v)\<^sup>2"
    by simp
  ultimately show ?thesis
    by linarith
qed

lemma sqrt_8: "sqrt 8 = 2 * sqrt 2"
proof -
  have "sqrt 8 = sqrt (4 * 2)" by simp
  also have "\<dots> = sqrt 4 * sqrt 2" by (rule real_sqrt_mult)
  finally show ?thesis by simp
qed

lemma tsirelson_plane:
  fixes a0 b0 a1 b1 c0 d0 c1 d1 :: real
  assumes A0: "a0\<^sup>2 + b0\<^sup>2 = 1" and A1: "a1\<^sup>2 + b1\<^sup>2 = 1"
    and B0: "c0\<^sup>2 + d0\<^sup>2 = 1" and B1: "c1\<^sup>2 + d1\<^sup>2 = 1"
  shows "\<bar>(a0 * c0 + b0 * d0) + (a0 * c1 + b0 * d1) + (a1 * c0 + b1 * d0) - (a1 * c1 + b1 * d1)\<bar>
        \<le> 2 * sqrt 2"
proof -
  define u where "u = a0 * (c0 + c1) + b0 * (d0 + d1)"
  define v where "v = a1 * (c0 - c1) + b1 * (d0 - d1)"
  have u: "u\<^sup>2 \<le> (c0 + c1)\<^sup>2 + (d0 + d1)\<^sup>2"
    unfolding u_def using A0 by (rule cauchy_schwarz_plane)
  have v: "v\<^sup>2 \<le> (c0 - c1)\<^sup>2 + (d0 - d1)\<^sup>2"
    unfolding v_def using A1 by (rule cauchy_schwarz_plane)
  have "(c0 + c1)\<^sup>2 + (d0 + d1)\<^sup>2 + ((c0 - c1)\<^sup>2 + (d0 - d1)\<^sup>2)
      = 2 * (c0\<^sup>2 + d0\<^sup>2) + 2 * (c1\<^sup>2 + d1\<^sup>2)"
    by (simp add: power2_eq_square algebra_simps)
  also have "\<dots> = 4"
    by (simp add: B0 B1)
  finally have "u\<^sup>2 + v\<^sup>2 \<le> 4"
    using u v by linarith
  then have "2 * (u\<^sup>2 + v\<^sup>2) \<le> 8"
    by simp
  with square_of_sum_le have "(u + v)\<^sup>2 \<le> 8"
    by (rule order_trans)
  then have "sqrt ((u + v)\<^sup>2) \<le> sqrt 8"
    by (rule real_sqrt_le_mono)
  then have "\<bar>u + v\<bar> \<le> 2 * sqrt 2"
    by (simp add: sqrt_8)
  moreover have "(a0 * c0 + b0 * d0) + (a0 * c1 + b0 * d1) + (a1 * c0 + b1 * d0)
      - (a1 * c1 + b1 * d1) = u + v"
    by (simp add: u_def v_def algebra_simps)
  ultimately show ?thesis
    by simp
qed

subsection \<open>Linearity of observables\<close>

lemma pauli_z_scale: "pauli_z w (state_scale k s) = state_scale k (pauli_z w s)"
  by (cases s) simp

lemma pauli_x_scale: "pauli_x w (state_scale k s) = state_scale k (pauli_x w s)"
  by (cases s) simp

lemma state_add_scale:
  "state_add (state_scale k s) (state_scale k t) = state_scale k (state_add s t)"
  by (cases s; cases t) (simp add: algebra_simps)

lemma state_scale_scale: "state_scale k (state_scale l s) = state_scale (k * l) s"
  by (cases s) (simp add: algebra_simps)

lemma apply_obs_scale: "apply_obs ob (state_scale k s) = state_scale k (apply_obs ob s)"
  by (induction ob arbitrary: s)
    (simp_all add: pauli_z_scale pauli_x_scale state_add_scale state_scale_scale mult.commute)

lemma state_scale_fixed:
  assumes "state_scale k s = s" and "s \<noteq> null_vector"
  shows "k = 1"
  using assms by (cases s) (auto simp: null_vector_def)

text \<open>An operator that squares to the identity has no eigenvalue other than 1 and -1.\<close>

lemma involution_eigenvalue:
  assumes inv: "apply_obs (Prod ob ob) s = s"
    and eig: "apply_obs ob s = state_scale k s"
    and nz: "s \<noteq> null_vector"
  shows "k = 1 \<or> k = - 1"
proof -
  have "s = apply_obs ob (apply_obs ob s)"
    using inv by simp
  also have "\<dots> = state_scale (k * k) s"
    by (simp add: eig apply_obs_scale state_scale_scale)
  finally have "state_scale (k * k) s = s"
    by simp
  then have "k * k = 1"
    using nz by (rule state_scale_fixed)
  then have "k\<^sup>2 = 1"
    by (simp add: power2_eq_square)
  then show ?thesis
    by (simp add: power2_eq_1_iff)
qed

subsection \<open>The rotated observables of Bob\<close>

lemma B0_involution:
  "apply_obs (Prod (fst bob_observables_optimal) (fst bob_observables_optimal)) s = s"
proof (cases s)
  case (fields a b c d)
  then show ?thesis
    by (simp add: opt_defs field_simps sqrt2_sq_complex)
qed

lemma B1_involution:
  "apply_obs (Prod (snd bob_observables_optimal) (snd bob_observables_optimal)) s = s"
proof (cases s)
  case (fields a b c d)
  then show ?thesis
    by (simp add: opt_defs field_simps sqrt2_sq_complex)
qed

lemma B0_eigen_plus:
  "apply_obs (fst bob_observables_optimal) (1, complex_of_real (sqrt 2 - 1), 0, 0) =
     state_scale 1 (1, complex_of_real (sqrt 2 - 1), 0, 0)"
  by (simp add: opt_defs field_simps sqrt2_sq_complex)

lemma B0_eigen_minus:
  "apply_obs (fst bob_observables_optimal) (1, complex_of_real (- sqrt 2 - 1), 0, 0) =
     state_scale (- 1) (1, complex_of_real (- sqrt 2 - 1), 0, 0)"
  by (simp add: opt_defs field_simps sqrt2_sq_complex)

lemma B1_eigen_plus:
  "apply_obs (snd bob_observables_optimal) (1, complex_of_real (1 - sqrt 2), 0, 0) =
     state_scale 1 (1, complex_of_real (1 - sqrt 2), 0, 0)"
  by (simp add: opt_defs field_simps sqrt2_sq_complex)

lemma B1_eigen_minus:
  "apply_obs (snd bob_observables_optimal) (1, complex_of_real (1 + sqrt 2), 0, 0) =
     state_scale (- 1) (1, complex_of_real (1 + sqrt 2), 0, 0)"
  by (simp add: opt_defs field_simps sqrt2_sq_complex)

lemma B0_hermitian:
  "braket s (apply_obs (fst bob_observables_optimal) t) =
     braket (apply_obs (fst bob_observables_optimal) s) t"
  by (cases s; cases t) (simp add: opt_defs algebra_simps add_divide_distrib diff_divide_distrib)

lemma B1_hermitian:
  "braket s (apply_obs (snd bob_observables_optimal) t) =
     braket (apply_obs (snd bob_observables_optimal) s) t"
  by (cases s; cases t) (simp add: opt_defs algebra_simps add_divide_distrib diff_divide_distrib)

section \<open>The claims\<close>

text \<open>
  C1. Whatever four expectation values \<open>e1\<close>, \<open>e2\<close>, \<open>e3\<close>, \<open>e4\<close> the measurements of
  \<open>A0 @ B0\<close>, \<open>A0 @ B1\<close>, \<open>A1 @ B0\<close>, \<open>A1 @ B1\<close> return, \<open>compute_chsh\<close> returns
  \<open>e1 + e2 + e3 - e4\<close>.
\<close>

theorem compute_chsh_aggregate:
  assumes "m (Prod A0 B0) = Inr e1" and "m (Prod A0 B1) = Inr e2"
    and "m (Prod A1 B0) = Inr e3" and "m (Prod A1 B1) = Inr e4"
  shows "compute_chsh m A0 A1 B0 B1 = Inr (e1 + e2 + e3 - e4)"
proof -
  have "measure_all m (chsh_observables A0 A1 B0 B1) = Inr [e1, e2, e3, e4]"
    using assms by (simp add: chsh_observables_def)
  moreover have "sum_list (take 3 [e1, e2, e3, e4]) - [e1, e2, e3, e4] ! 3 = e1 + e2 + e3 - e4"
    by simp
  ultimately show ?thesis
    by (simp add: compute_chsh_def)
qed

theorem compute_chsh_aggregate_witness:
  "measure_obs (Prod (PauliZ 0) (fst bob_observables_optimal)) = Inr (1 / sqrt 2)
   \<and> measure_obs (Prod (PauliZ 0) (snd bob_observables_optimal)) = Inr (1 / sqrt 2)
   \<and> measure_obs (Prod (PauliX 0) (fst bob_observables_optimal)) = Inr (1 / sqrt 2)
   \<and> measure_obs (Prod (PauliX 0) (snd bob_observables_optimal)) = Inr (- (1 / sqrt 2))
   \<and> compute_chsh measure_obs (PauliZ 0) (PauliX 0)
        (fst bob_observables_optimal) (snd bob_observables_optimal) =
      Inr (1 / sqrt 2 + 1 / sqrt 2 + 1 / sqrt 2 - - (1 / sqrt 2))"
  using compute_chsh_aggregate [OF measure_ZB0 measure_ZB1 measure_XB0 measure_XB1]
    measure_ZB0 measure_ZB1 measure_XB0 measure_XB1
  by simp

text \<open>
  C2. With Alice's observables \<open>Z(0)\<close>, \<open>X(0)\<close> and Bob's rotated observables, the exact
  simulation on the Bell pair makes \<open>compute_chsh\<close> return \<open>2 * sqrt 2\<close>: the returned
  value is within \<open>1e-9\<close> of \<open>2 * sqrt 2\<close>, and within half a unit of the last digit of
  \<open>2.8284271\<close>.
\<close>

theorem compute_chsh_optimal:
  "\<exists>v. compute_chsh measure_obs (fst alice_observables) (snd alice_observables)
          (fst bob_observables_optimal) (snd bob_observables_optimal) = Inr v
       \<and> \<bar>v - 2 * sqrt 2\<bar> \<le> 1 / 10 ^ 9
       \<and> \<bar>v - 2.8284271\<bar> \<le> 5 / 10 ^ 8"
  using simulated_optimal two_sqrt2_approx by (simp add: alice_observables_def)

text \<open>
  C3. With the unrotated observables (\<open>Z(0)\<close>, \<open>X(0)\<close> for Alice, \<open>Z(1)\<close>, \<open>X(1)\<close> for
  Bob) the exact simulation on the Bell pair gives the correlators 1, 0, 0, 1 and
  \<open>compute_chsh\<close> returns 0.
\<close>

theorem compute_chsh_unrotated:
  "map measure_obs (chsh_observables (fst alice_observables) (snd alice_observables)
        (fst bob_observables) (snd bob_observables)) = [Inr 1, Inr 0, Inr 0, Inr 1]
   \<and> compute_chsh measure_obs (fst alice_observables) (snd alice_observables)
        (fst bob_observables) (snd bob_observables) = Inr 0"
  using simulated_unrotated measure_ZZ measure_ZX measure_XZ measure_XX
  by (simp add: alice_observables_def bob_observables_def chsh_observables_def)

text \<open>
  C4. When the hardware section measures the raw values \<open>z0\<close>, \<open>x0\<close>, \<open>z1\<close>, \<open>x1\<close>, its
  result is the sum \<open>A0B0 + A0B1 + A1B0 - A1B1\<close> of the reconstructed correlators, and
  this is what \<open>compute_chsh\<close> returns when its four measurements give those
  reconstructed correlators.
\<close>

theorem hardware_chsh_same_aggregate:
  assumes "mh (Prod A0 (PauliZ 1)) = Inr z0" and "mh (Prod A0 (PauliX 1)) = Inr x0"
    and "mh (Prod A1 (PauliZ 1)) = Inr z1" and "mh (Prod A1 (PauliX 1)) = Inr x1"
    and "m (Prod A0 B0) = Inr ((z0 + x0) / sqrt 2)"
    and "m (Prod A0 B1) = Inr ((z0 - x0) / sqrt 2)"
    and "m (Prod A1 B0) = Inr ((z1 + x1) / sqrt 2)"
    and "m (Prod A1 B1) = Inr ((z1 - x1) / sqrt 2)"
  shows "hardware_chsh mh A0 A1 =
           Inr ((z0 + x0) / sqrt 2 + (z0 - x0) / sqrt 2 + (z1 + x1) / sqrt 2 - (z1 - x1) / sqrt 2)
         \<and> hardware_chsh mh A0 A1 = compute_chsh m A0 A1 B0 B1"
proof -
  have "hardware_chsh mh A0 A1 = Inr (CHSH_expval [z0, x0, z1, x1])"
    using assms(1-4) by (rule hardware_chsh_values)
  moreover have "compute_chsh m A0 A1 B0 B1 =
      Inr ((z0 + x0) / sqrt 2 + (z0 - x0) / sqrt 2 + (z1 + x1) / sqrt 2 - (z1 - x1) / sqrt 2)"
    using assms(5-8) by (rule compute_chsh_values)
  ultimately show ?thesis
    by (simp add: CHSH_expval_four)
qed

theorem hardware_chsh_same_aggregate_witness:
  "measure_obs (Prod (PauliZ 0) (PauliZ 1)) = Inr 1
   \<and> measure_obs (Prod (PauliZ 0) (PauliX 1)) = Inr 0
   \<and> measure_obs (Prod (PauliX 0) (PauliZ 1)) = Inr 0
   \<and> measure_obs (Prod (PauliX 0) (PauliX 1)) = Inr 1
   \<and> measure_obs (Prod (PauliZ 0) (fst bob_observables_optimal)) = Inr ((1 + 0) / sqrt 2)
   \<and> measure_obs (Prod (PauliZ 0) (snd bob_observables_optimal)) = Inr ((1 - 0) / sqrt 2)
   \<and> measure_obs (Prod (PauliX 0) (fst bob_observables_optimal)) = Inr ((0 + 1) / sqrt 2)
   \<and> measure_obs (Prod (PauliX 0) (snd bob_observables_optimal)) = Inr ((0 - 1) / sqrt 2)
   \<and> hardware_chsh measure_obs (PauliZ 0) (PauliX 0) =
       Inr ((1 + 0) / sqrt 2 + (1 - 0) / sqrt 2 + (0 + 1) / sqrt 2 - (0 - 1) / sqrt 2)
   \<and> hardware_chsh measure_obs (PauliZ 0) (PauliX 0) =
       compute_chsh measure_obs (PauliZ 0) (PauliX 0)
         (fst bob_observables_optimal) (snd bob_observables_optimal)"
proof -
  have h: "measure_obs (Prod (PauliZ 0) (fst bob_observables_optimal)) = Inr ((1 + 0) / sqrt 2)"
    "measure_obs (Prod (PauliZ 0) (snd bob_observables_optimal)) = Inr ((1 - 0) / sqrt 2)"
    "measure_obs (Prod (PauliX 0) (fst bob_observables_optimal)) = Inr ((0 + 1) / sqrt 2)"
    "measure_obs (Prod (PauliX 0) (snd bob_observables_optimal)) = Inr ((0 - 1) / sqrt 2)"
    using measure_ZB0 measure_ZB1 measure_XB0 measure_XB1 by simp_all
  from hardware_chsh_same_aggregate [OF measure_ZZ measure_ZX measure_XZ measure_XX h]
  show ?thesis
    using measure_ZZ measure_ZX measure_XZ measure_XX h by blast
qed

text \<open>
  C5 (as stated). The claim bounds the aggregate by \<open>2 * sqrt 2\<close> for every choice of
  expectation values in the unit interval. For \<open>compute_chsh\<close> this fails: on the
  correlators 1, 1, 1, -1 it returns 4.
\<close>

theorem compute_chsh_exceeds_quantum_bound:
  "list_all in_unit_interval
     (map extremal_table (chsh_observables (PauliZ 0) (PauliX 0) (PauliZ 1) (PauliX 1)))
   \<and> compute_chsh extremal_table (PauliZ 0) (PauliX 0) (PauliZ 1) (PauliX 1) = Inr 4
   \<and> \<not> \<bar>4 :: real\<bar> \<le> 2 * sqrt 2"
proof -
  have "\<not> \<bar>4 :: real\<bar> \<le> 2 * sqrt 2"
    using two_sqrt2_upper by simp
  then show ?thesis
    by (simp add: compute_chsh_def chsh_observables_def extremal_table_def in_unit_interval_def)
qed

text \<open>
  C5 (amended). For raw expectation values in the unit interval the hardware-section
  reconstruction is bounded in magnitude by \<open>2 * sqrt 2\<close>. So is the value that
  \<open>compute_chsh\<close> returns in the exact simulation of the Bell pair: for the unrotated
  and for the rotated observables of Bob, and for any normalised observables of Alice and
  Bob in the plane of \<open>Z\<close> and \<open>X\<close>.
\<close>

theorem chsh_quantum_bound:
  assumes "mh (Prod A0 (PauliZ 1)) = Inr z0" and "mh (Prod A0 (PauliX 1)) = Inr x0"
    and "mh (Prod A1 (PauliZ 1)) = Inr z1" and "mh (Prod A1 (PauliX 1)) = Inr x1"
    and "- 1 \<le> z0" and "z0 \<le> 1" and "- 1 \<le> x0" and "x0 \<le> 1"
    and "- 1 \<le> z1" and "z1 \<le> 1" and "- 1 \<le> x1" and "x1 \<le> 1"
    and "a0\<^sup>2 + b0\<^sup>2 = 1" and "a1\<^sup>2 + b1\<^sup>2 = 1"
    and "c0\<^sup>2 + d0\<^sup>2 = 1" and "c1\<^sup>2 + d1\<^sup>2 = 1"
  shows "(\<exists>v. hardware_chsh mh A0 A1 = Inr v \<and> \<bar>v\<bar> \<le> 2 * sqrt 2)
       \<and> (\<exists>v. compute_chsh measure_obs (fst alice_observables) (snd alice_observables)
                 (fst bob_observables) (snd bob_observables) = Inr v \<and> \<bar>v\<bar> \<le> 2 * sqrt 2)
       \<and> (\<exists>v. compute_chsh measure_obs (fst alice_observables) (snd alice_observables)
                 (fst bob_observables_optimal) (snd bob_observables_optimal) = Inr v
               \<and> \<bar>v\<bar> \<le> 2 * sqrt 2)
       \<and> (\<exists>v. compute_chsh measure_obs (zx_observable 0 a0 b0) (zx_observable 0 a1 b1)
                 (zx_observable 1 c0 d0) (zx_observable 1 c1 d1) = Inr v
               \<and> \<bar>v\<bar> \<le> 2 * sqrt 2)"
proof -
  have "hardware_chsh mh A0 A1 = Inr (sqrt 2 * (z0 + x1))"
    using hardware_chsh_values [OF assms(1-4)] by (simp add: CHSH_expval_simplified)
  moreover have "\<bar>sqrt 2 * (z0 + x1)\<bar> \<le> 2 * sqrt 2"
  proof -
    have "\<bar>z0 + x1\<bar> \<le> 2"
      using assms(5-12) by (simp add: abs_le_iff)
    then have "sqrt 2 * \<bar>z0 + x1\<bar> \<le> sqrt 2 * 2"
      by (intro mult_left_mono) simp_all
    then show ?thesis
      by (simp add: abs_mult mult.commute)
  qed
  ultimately have hw: "\<exists>v. hardware_chsh mh A0 A1 = Inr v \<and> \<bar>v\<bar> \<le> 2 * sqrt 2"
    by simp
  have "compute_chsh measure_obs (zx_observable 0 a0 b0) (zx_observable 0 a1 b1)
        (zx_observable 1 c0 d0) (zx_observable 1 c1 d1) =
      Inr ((a0 * c0 + b0 * d0) + (a0 * c1 + b0 * d1) + (a1 * c0 + b1 * d0) - (a1 * c1 + b1 * d1))"
    by (rule compute_chsh_values) (rule measure_zx_plane)+
  then have plane: "\<exists>v. compute_chsh measure_obs (zx_observable 0 a0 b0) (zx_observable 0 a1 b1)
        (zx_observable 1 c0 d0) (zx_observable 1 c1 d1) = Inr v \<and> \<bar>v\<bar> \<le> 2 * sqrt 2"
    using tsirelson_plane [OF assms(13-16)] by simp
  have "\<bar>0 :: real\<bar> \<le> 2 * sqrt 2" and "\<bar>2 * sqrt 2\<bar> \<le> 2 * sqrt 2"
    by simp_all
  then show ?thesis
    using hw plane simulated_unrotated simulated_optimal
    by (simp add: alice_observables_def bob_observables_def)
qed

theorem chsh_quantum_bound_witness:
  "measure_obs (Prod (PauliZ 0) (PauliZ 1)) = Inr 1
   \<and> measure_obs (Prod (PauliZ 0) (PauliX 1)) = Inr 0
   \<and> measure_obs (Prod (PauliX 0) (PauliZ 1)) = Inr 0
   \<and> measure_obs (Prod (PauliX 0) (PauliX 1)) = Inr 1
   \<and> - 1 \<le> (1::real) \<and> (1::real) \<le> 1 \<and> - 1 \<le> (0::real) \<and> (0::real) \<le> 1
   \<and> (1::real)\<^sup>2 + 0\<^sup>2 = 1 \<and> (0::real)\<^sup>2 + 1\<^sup>2 = 1
   \<and> (\<exists>v. hardware_chsh measure_obs (PauliZ 0) (PauliX 0) = Inr v \<and> \<bar>v\<bar> \<le> 2 * sqrt 2)
   \<and> (\<exists>v. compute_chsh measure_obs (zx_observable 0 1 0) (zx_observable 0 0 1)
             (zx_observable 1 1 0) (zx_observable 1 0 1) = Inr v
           \<and> \<bar>v\<bar> \<le> 2 * sqrt 2)"
proof -
  have n: "(1::real)\<^sup>2 + 0\<^sup>2 = 1" "(0::real)\<^sup>2 + 1\<^sup>2 = 1"
    by simp_all
  have b: "- 1 \<le> (1::real)" "(1::real) \<le> 1" "- 1 \<le> (0::real)" "(0::real) \<le> 1"
    by simp_all
  from chsh_quantum_bound [OF measure_ZZ measure_ZX measure_XZ measure_XX
      b(1) b(2) b(3) b(4) b(3) b(4) b(1) b(2) n(1) n(2) n(1) n(2)]
  show ?thesis
    using measure_ZZ measure_ZX measure_XZ measure_XX n b by blast
qed

text \<open>
  C6. When the four expectation values lie in the unit interval, the value that
  \<open>compute_chsh\<close> returns lies between -4 and 4.
\<close>

theorem compute_chsh_range:
  assumes "m (Prod A0 B0) = Inr e1" and "m (Prod A0 B1) = Inr e2"
    and "m (Prod A1 B0) = Inr e3" and "m (Prod A1 B1) = Inr e4"
    and "- 1 \<le> e1" and "e1 \<le> 1" and "- 1 \<le> e2" and "e2 \<le> 1"
    and "- 1 \<le> e3" and "e3 \<le> 1" and "- 1 \<le> e4" and "e4 \<le> 1"
  shows "compute_chsh m A0 A1 B0 B1 = Inr (e1 + e2 + e3 - e4)
       \<and> - 4 \<le> e1 + e2 + e3 - e4 \<and> e1 + e2 + e3 - e4 \<le> 4"
  using compute_chsh_values [OF assms(1-4)] assms(5-12) by simp

theorem compute_chsh_range_witness:
  "measure_obs (Prod (PauliX 0) (PauliZ 1)) = Inr 0
   \<and> measure_obs (Prod (PauliX 0) (PauliX 1)) = Inr 1
   \<and> measure_obs (Prod (PauliZ 0) (PauliZ 1)) = Inr 1
   \<and> measure_obs (Prod (PauliZ 0) (PauliX 1)) = Inr 0
   \<and> - 1 \<le> (0::real) \<and> (0::real) \<le> 1 \<and> - 1 \<le> (1::real) \<and> (1::real) \<le> 1
   \<and> compute_chsh measure_obs (PauliX 0) (PauliZ 0) (PauliZ 1) (PauliX 1) = Inr (0 + 1 + 1 - 0)
   \<and> - 4 \<le> (0 + 1 + 1 - 0 :: real) \<and> (0 + 1 + 1 - 0 :: real) \<le> 4"
proof -
  have "compute_chsh measure_obs (PauliX 0) (PauliZ 0) (PauliZ 1) (PauliX 1) = Inr (0 + 1 + 1 - 0)"
    using compute_chsh_range [OF measure_XZ measure_XX measure_ZZ measure_ZX] by simp
  then show ?thesis
    using measure_ZZ measure_ZX measure_XZ measure_XX by simp
qed

text \<open>
  C7. Each of the four expectation values of the exact simulation on the Bell pair lies in
  the unit interval, for the unrotated and for the rotated observables of Bob.
\<close>

theorem simulated_expvals_in_unit_interval:
  "list_all in_unit_interval
     (map measure_obs (chsh_observables (fst alice_observables) (snd alice_observables)
        (fst bob_observables) (snd bob_observables)))
   \<and> list_all in_unit_interval
     (map measure_obs (chsh_observables (fst alice_observables) (snd alice_observables)
        (fst bob_observables_optimal) (snd bob_observables_optimal)))"
proof -
  have "- 1 \<le> 1 / sqrt 2"
    by (rule order_trans [of _ 0]) simp_all
  then show ?thesis
    using measure_ZZ measure_ZX measure_XZ measure_XX
      measure_ZB0 measure_ZB1 measure_XB0 measure_XB1 inv_sqrt2_le_1
    by (simp add: chsh_observables_def alice_observables_def bob_observables_def
        in_unit_interval_def)
qed

text \<open>
  C9. The value of the hardware section is \<open>sqrt 2 * (z0 + x1)\<close>: the raw values \<open>x0\<close> and
  \<open>z1\<close> cancel, so the result does not change when they do.
\<close>

theorem hardware_chsh_two_terms:
  "CHSH_expval [z0, x0, z1, x1] = sqrt 2 * (z0 + x1)
   \<and> CHSH_expval [z0, x0', z1', x1] = CHSH_expval [z0, x0, z1, x1]"
proof -
  have two: "2 / sqrt 2 = sqrt 2"
    by (simp add: real_div_sqrt)
  have simplified: "CHSH_expval [z, x, z', x'] = sqrt 2 * (z + x')" for z x z' x' :: real
  proof -
    have "(z + x) / sqrt 2 + (z - x) / sqrt 2 = (2 / sqrt 2) * z"
      by (simp add: add_divide_distrib diff_divide_distrib)
    moreover have "(z' + x') / sqrt 2 - (z' - x') / sqrt 2 = (2 / sqrt 2) * x'"
      by (simp add: add_divide_distrib diff_divide_distrib)
    ultimately have "CHSH_expval [z, x, z', x'] = (2 / sqrt 2) * z + (2 / sqrt 2) * x'"
      unfolding CHSH_expval_four by linarith
    then show ?thesis
      unfolding two by (simp add: distrib_left)
  qed
  show ?thesis
    by (simp only: simplified)
qed

text \<open>
  C10. Both observables of \<open>bob_observables_optimal\<close> are Hermitian and square to the
  identity; every eigenvalue of either is 1 or -1, and each of them has an eigenvector
  for 1 and one for -1.
\<close>

theorem bob_observables_optimal_involutions:
  "apply_obs (Prod (fst bob_observables_optimal) (fst bob_observables_optimal)) s = s
   \<and> apply_obs (Prod (snd bob_observables_optimal) (snd bob_observables_optimal)) s = s
   \<and> braket s (apply_obs (fst bob_observables_optimal) t) =
       braket (apply_obs (fst bob_observables_optimal) s) t
   \<and> braket s (apply_obs (snd bob_observables_optimal) t) =
       braket (apply_obs (snd bob_observables_optimal) s) t
   \<and> (u0 \<noteq> null_vector \<and> apply_obs (fst bob_observables_optimal) u0 = state_scale k0 u0
        \<longrightarrow> k0 = 1 \<or> k0 = - 1)
   \<and> (u1 \<noteq> null_vector \<and> apply_obs (snd bob_observables_optimal) u1 = state_scale k1 u1
        \<longrightarrow> k1 = 1 \<or> k1 = - 1)
   \<and> (\<exists>u. u \<noteq> null_vector \<and> apply_obs (fst bob_observables_optimal) u = state_scale 1 u)
   \<and> (\<exists>u. u \<noteq> null_vector \<and> apply_obs (fst bob_observables_optimal) u = state_scale (- 1) u)
   \<and> (\<exists>u. u \<noteq> null_vector \<and> apply_obs (snd bob_observables_optimal) u = state_scale 1 u)
   \<and> (\<exists>u. u \<noteq> null_vector \<and> apply_obs (snd bob_observables_optimal) u = state_scale (- 1) u)"
proof -
  have nz: "(1, c, 0, 0) \<noteq> null_vector" for c :: complex
    by (simp add: null_vector_def)
  have "\<exists>u. u \<noteq> null_vector \<and> apply_obs (fst bob_observables_optimal) u = state_scale 1 u"
    using B0_eigen_plus nz by blast
  moreover
  have "\<exists>u. u \<noteq> null_vector \<and> apply_obs (fst bob_observables_optimal) u = state_scale (- 1) u"
    using B0_eigen_minus nz by blast
  moreover
  have "\<exists>u. u \<noteq> null_vector \<and> apply_obs (snd bob_observables_optimal) u = state_scale 1 u"
    using B1_eigen_plus nz by blast
  moreover
  have "\<exists>u. u \<noteq> null_vector \<and> apply_obs (snd bob_observables_optimal) u = state_scale (- 1) u"
    using B1_eigen_minus nz by blast
  moreover
  have "u0 \<noteq> null_vector \<and> apply_obs (fst bob_observables_optimal) u0 = state_scale k0 u0
        \<longrightarrow> k0 = 1 \<or> k0 = - 1"
    using involution_eigenvalue [OF B0_involution] by blast
  moreover
  have "u1 \<noteq> null_vector \<and> apply_obs (snd bob_observables_optimal) u1 = state_scale k1 u1
        \<longrightarrow> k1 = 1 \<or> k1 = - 1"
    using involution_eigenvalue [OF B1_involution] by blast
  ultimately show ?thesis
    using B0_involution B1_involution B0_hermitian B1_hermitian by blast
qed

theorem bob_observables_optimal_involutions_witness:
  "(1, complex_of_real (- sqrt 2 - 1), 0, 0) \<noteq> null_vector
   \<and> apply_obs (fst bob_observables_optimal) (1, complex_of_real (- sqrt 2 - 1), 0, 0) =
       state_scale (- 1) (1, complex_of_real (- sqrt 2 - 1), 0, 0)
   \<and> (1, complex_of_real (1 - sqrt 2), 0, 0) \<noteq> null_vector
   \<and> apply_obs (snd bob_observables_optimal) (1, complex_of_real (1 - sqrt 2), 0, 0) =
       state_scale 1 (1, complex_of_real (1 - sqrt 2), 0, 0)
   \<and> ((- 1 :: complex) = 1 \<or> (- 1 :: complex) = - 1)
   \<and> ((1 :: complex) = 1 \<or> (1 :: complex) = - 1)
   \<and> apply_obs (Prod (fst bob_observables_optimal) (fst bob_observables_optimal))
        (bell_pair initial_state) = bell_pair initial_state"
proof -
  have nz: "(1, c, 0, 0) \<noteq> null_vector" for c :: complex
    by (simp add: null_vector_def)
  show ?thesis
    using bob_observables_optimal_involutions
      [of "bell_pair initial_state" "bell_pair initial_state"
        "(1, complex_of_real (- sqrt 2 - 1), 0, 0)" "- 1"
        "(1, complex_of_real (1 - sqrt 2), 0, 0)" 1]
      B0_eigen_minus B1_eigen_plus nz
    by simp
qed

end
